theory Spec2Isabelle
  imports Complex_Main "HOL-Library.Word" "HOL-Library.Sublist"
begin

section \<open>JavaScript strings\<close>

text \<open>
  A JavaScript string is a sequence of UTF-16 code units; \<open>length\<close>, \<open>trim\<close> and
  emptiness all work on code units. String literals of the source are ASCII and are
  embedded with \<open>lit\<close>.
\<close>

type_synonym code_unit = "16 word"
type_synonym jsstring = "code_unit list"

definition lit :: "string \<Rightarrow> jsstring" where
  "lit s = map (\<lambda>c. of_nat (of_char c)) s"

text \<open>
  \<open>String.prototype.trim\<close> removes WhiteSpace and LineTerminator code points from both
  ends (ECMA-262): TAB, LF, VT, FF, CR, SPACE, NBSP, U+1680, U+2000..U+200A, U+2028,
  U+2029, U+202F, U+205F, U+3000 and U+FEFF. All of them are single code units.
\<close>

definition is_whitespace :: "code_unit \<Rightarrow> bool" where
  "is_whitespace c \<longleftrightarrow>
     c = 0x0009 \<or> c = 0x000A \<or> c = 0x000B \<or> c = 0x000C \<or> c = 0x000D \<or> c = 0x0020 \<or>
     c = 0x00A0 \<or> c = 0x1680 \<or> (0x2000 \<le> c \<and> c \<le> 0x200A) \<or> c = 0x2028 \<or>
     c = 0x2029 \<or> c = 0x202F \<or> c = 0x205F \<or> c = 0x3000 \<or> c = 0xFEFF"

definition trim :: "jsstring \<Rightarrow> jsstring" where
  "trim s = rev (dropWhile is_whitespace (rev (dropWhile is_whitespace s)))"

text \<open>\<open>String(n)\<close> for a non-negative integer: its decimal digits.\<close>

definition digit :: "nat \<Rightarrow> code_unit" where
  "digit d = of_nat (48 + d)"

fun showNat :: "nat \<Rightarrow> jsstring" where
  "showNat n = (if n < 10 then [digit n] else showNat (n div 10) @ [digit (n mod 10)])"

declare showNat.simps [simp del]

section \<open>ResearchForm (components/research/ResearchForm.tsx)\<close>

text \<open>
  \<^verbatim>\<open>
  const handleSubmit = (e: React.FormEvent) => {
    e.preventDefault();
    if (query.trim() && !isLoading) {
      onSubmit(query.trim());
    }
  };
  \<close>
  The model returns the argument \<open>onSubmit\<close> is called with, or \<open>None\<close> when it is not
  called. A string is truthy exactly when it is not empty.
\<close>

definition handleSubmit :: "jsstring \<Rightarrow> bool \<Rightarrow> jsstring option" where
  "handleSubmit query isLoading =
     (if trim query \<noteq> [] \<and> \<not> isLoading then Some (trim query) else None)"

text \<open>The submit button: \<^verbatim>\<open>disabled={!query.trim() || isLoading}\<close>.\<close>

definition submit_disabled :: "jsstring \<Rightarrow> bool \<Rightarrow> bool" where
  "submit_disabled query isLoading \<longleftrightarrow> trim query = [] \<or> isLoading"

section \<open>JSON values and thrown values\<close>

text \<open>
  \<open>data\<close>, the result of \<open>response.json()\<close>, has the type \<open>any\<close>: every JSON value can
  arrive. A JSON object is the list of its members in the order of the text; a later member
  with the same name wins, as in \<open>JSON.parse\<close>. A property read that gives
  \<open>undefined\<close> is \<open>None\<close>.
\<close>

datatype json =
    JNull
  | JBool bool
  | JNum rat
  | JStr jsstring
  | JArr "json list"
  | JObj "(jsstring \<times> json) list"

text \<open>
  \<open>v.k\<close> for a value that is neither \<open>null\<close> nor \<open>undefined\<close>, for the property names
  the pages read in this way (\<open>events\<close>, \<open>message\<close>, \<open>answer\<close>, \<open>citations\<close>, \<open>url\<close>,
  \<open>title\<close>): an object gives its member, every other value \<open>undefined\<close>, since no
  prototype defines these names. Reading a
  property of \<open>null\<close> throws; the callers test for \<open>JNull\<close> first.
\<close>

definition js_member :: "json \<Rightarrow> jsstring \<Rightarrow> json option" where
  "js_member v k = (case v of JObj kvs \<Rightarrow> map_of (rev kvs) k | _ \<Rightarrow> None)"

fun truthy :: "json \<Rightarrow> bool" where
  "truthy JNull = False"
| "truthy (JBool b) = b"
| "truthy (JNum r) = (r \<noteq> 0)"
| "truthy (JStr s) = (s \<noteq> [])"
| "truthy (JArr vs) = True"
| "truthy (JObj kvs) = True"

text \<open>\<open>a || b\<close>, where \<open>a\<close> may be \<open>undefined\<close>.\<close>

definition or_else :: "json option \<Rightarrow> json \<Rightarrow> json" where
  "or_else a b = (case a of Some v \<Rightarrow> (if truthy v then v else b) | None \<Rightarrow> b)"

text \<open>
  What a \<open>catch\<close> receives: an instance of \<open>Error\<close> with its message, or any other
  value.
\<close>

datatype thrown = ErrorObject jsstring | OtherValue

section \<open>The API configuration (config/api.ts)\<close>

text \<open>
  \<^verbatim>\<open>export const API_BASE_URL = import.meta.env.VITE_API_URL || "http://localhost:8000";\<close>
  The environment variable is the parameter: \<open>None\<close> when it is not set.
\<close>

definition API_BASE_URL :: "jsstring option \<Rightarrow> jsstring" where
  "API_BASE_URL vite_api_url =
     (case vite_api_url of
        Some u \<Rightarrow> (if u \<noteq> [] then u else lit ''http://localhost:8000'')
      | None \<Rightarrow> lit ''http://localhost:8000'')"

text \<open>
  \<^verbatim>\<open>export const API_ENDPOINTS = { health: ..., status: ..., research: ... }\<close>. The field
  \<open>status\<close> is written \<open>status_endpoint\<close> here, \<open>status\<close> being the field of a response.
\<close>

record API_ENDPOINTS_t =
  health :: jsstring
  status_endpoint :: jsstring
  research :: jsstring

definition API_ENDPOINTS :: "jsstring option \<Rightarrow> API_ENDPOINTS_t" where
  "API_ENDPOINTS vite_api_url =
     \<lparr> health = API_BASE_URL vite_api_url @ lit ''/api/health'',
       status_endpoint = API_BASE_URL vite_api_url @ lit ''/api/status'',
       research = API_BASE_URL vite_api_url @ lit ''/api/research'' \<rparr>"

definition HEALTH_CHECK_ENDPOINT :: "jsstring option \<Rightarrow> jsstring" where
  "HEALTH_CHECK_ENDPOINT vite_api_url = health (API_ENDPOINTS vite_api_url)"

section \<open>The Fetch API, as the pages use it\<close>

text \<open>
  The arguments of a \<open>fetch\<close> call: the URL and the \<open>method\<close>, \<open>headers\<close> and \<open>body\<close> of
  its options (\<open>body\<close> is the value whose JSON text is sent), and the milliseconds of
  \<open>signal: AbortSignal.timeout(ms)\<close> when a signal is given.
\<close>

record fetch_request =
  url :: jsstring
  http_method :: jsstring
  headers :: "(jsstring \<times> jsstring) list"
  body :: "json option"
  timeout_ms :: "nat option"

text \<open>
  A response: its status line and what \<open>response.json()\<close> settles to (a parse failure
  rejects with a \<open>SyntaxError\<close>). \<open>response.ok\<close> is true for the statuses 200 to 299 (Fetch
  standard).
\<close>

record response =
  status :: nat
  statusText :: jsstring
  json_result :: "thrown + json"

definition ok :: "response \<Rightarrow> bool" where
  "ok r \<longleftrightarrow> 200 \<le> status r \<and> status r \<le> 299"

datatype fetch_outcome = Rejected thrown | Resolved response

section \<open>The research page (pages/Index.tsx)\<close>

datatype event_type = Info | Success | Error

text \<open>
  \<^verbatim>\<open>interface TimelineEvent { id: string; timestamp: string; message: string;
     type?: "info" | "success" | "error"; }\<close>
  The message of a backend event is \<open>event.message || event\<close> with \<open>event: any\<close>, so at run
  time the field holds any JSON value; the page's own events hold strings (\<open>JStr\<close>).
  The fields \<open>id\<close> and \<open>type\<close> are written \<open>id'\<close> and \<open>type'\<close>.
\<close>

record TimelineEvent =
  id' :: jsstring
  timestamp :: jsstring
  message :: json
  type' :: "event_type option"

text \<open>
  The component state (the five \<open>useState\<close> cells). \<open>answer\<close> and \<open>citations\<close> are
  set from \<open>data.answer || ...\<close> and \<open>data.citations || []\<close>, any JSON value at run
  time.
\<close>

record ui_state =
  isLoading :: bool
  error :: "jsstring option"
  timeline :: "TimelineEvent list"
  answer :: json
  citations :: json

text \<open>The state of the page when it is mounted (lines 17 to 21).\<close>

definition initial_state :: ui_state where
  "initial_state =
     \<lparr> isLoading = False, error = None, timeline = [], answer = JStr [], citations = JArr [] \<rparr>"

text \<open>
  The effects of \<open>handleResearch\<close>, in program order. \<open>AppendTimeline e\<close> is the
  functional update \<^verbatim>\<open>setTimeline((prev) => [...prev, e])\<close>; \<open>SetTimeline\<close> replaces the
  list.
\<close>

datatype effect =
    SetIsLoading bool
  | SetError "jsstring option"
  | SetTimeline "TimelineEvent list"
  | AppendTimeline TimelineEvent
  | SetAnswer json
  | SetCitations json
  | ToastSuccess jsstring
  | ToastError jsstring jsstring

fun apply_effect :: "ui_state \<Rightarrow> effect \<Rightarrow> ui_state" where
  "apply_effect s (SetIsLoading b) = s\<lparr>isLoading := b\<rparr>"
| "apply_effect s (SetError e) = s\<lparr>error := e\<rparr>"
| "apply_effect s (SetTimeline es) = s\<lparr>timeline := es\<rparr>"
| "apply_effect s (AppendTimeline e) = s\<lparr>timeline := timeline s @ [e]\<rparr>"
| "apply_effect s (SetAnswer a) = s\<lparr>answer := a\<rparr>"
| "apply_effect s (SetCitations c) = s\<lparr>citations := c\<rparr>"
| "apply_effect s (ToastSuccess m) = s"
| "apply_effect s (ToastError m d) = s"

definition run :: "ui_state \<Rightarrow> effect list \<Rightarrow> ui_state" where
  "run s effs = foldl apply_effect s effs"

text \<open>
  What the page takes from its environment: \<open>new Date().toLocaleTimeString()\<close> at each
  of its call sites (\<open>eventTime i\<close> in the timer of the event with index \<open>i\<close>), the
  engine's message for the \<open>TypeError\<close> of \<open>data.events\<close> on \<open>null\<close>, and two conversions
  of the engine that the model does not spell out: \<open>coercedGtZero v\<close> is \<open>v > 0\<close> for a
  string, an array or an object \<open>v\<close> (\<open>None\<close> when the conversion to a number throws),
  and \<open>attributeOk v\<close> says that an array or an object \<open>v\<close> can be converted to the string
  of a DOM attribute.
\<close>

record env =
  startTime :: jsstring
  processingTime :: jsstring
  completionTime :: jsstring
  errorTime :: jsstring
  eventTime :: "nat \<Rightarrow> jsstring"
  typeErrorMessage :: jsstring
  coercedGtZero :: "json \<Rightarrow> bool option"
  attributeOk :: "json \<Rightarrow> bool"

text \<open>
  Lines 41 to 47: the request of \<open>handleResearch\<close>,
  \<^verbatim>\<open>fetch(API_ENDPOINTS.research, { method: "POST",
       headers: { "Content-Type": "application/json" }, body: JSON.stringify({ query }) })\<close>.
  The body is the JSON text of the value in \<open>body\<close>.
\<close>

definition research_fetch :: "jsstring option \<Rightarrow> jsstring \<Rightarrow> fetch_request" where
  "research_fetch vite_api_url query =
     \<lparr> url = research (API_ENDPOINTS vite_api_url),
       http_method = lit ''POST'',
       headers = [(lit ''Content-Type'', lit ''application/json'')],
       body = Some (JObj [(lit ''query'', JStr query)]),
       timeout_ms = None \<rparr>"

definition start_event :: "env \<Rightarrow> jsstring \<Rightarrow> TimelineEvent" where
  "start_event e query =
     \<lparr> id' = lit ''start'', timestamp = startTime e,
       message = JStr (lit ''Started research for: '' @ [0x22] @ query @ [0x22]),
       type' = None \<rparr>"

definition processing_event :: "env \<Rightarrow> TimelineEvent" where
  "processing_event e =
     \<lparr> id' = lit ''processing'', timestamp = processingTime e,
       message = JStr (lit ''Processing research data...''), type' = None \<rparr>"

definition complete_event :: "env \<Rightarrow> TimelineEvent" where
  "complete_event e =
     \<lparr> id' = lit ''complete'', timestamp = completionTime e,
       message = JStr (lit ''Research completed successfully''), type' = None \<rparr>"

definition error_event :: "env \<Rightarrow> jsstring \<Rightarrow> TimelineEvent" where
  "error_event e errorMessage =
     \<lparr> id' = lit ''error'', timestamp = errorTime e,
       message = JStr (lit ''Error: '' @ errorMessage), type' = Some Error \<rparr>"

text \<open>
  Lines 67 to 81: one timer per element of \<open>data.events\<close>, when that is an array (an
  array is always truthy), with the delay \<open>index * 300\<close>:
  \<^verbatim>\<open>
  if (data.events && Array.isArray(data.events)) {
    data.events.forEach((event: any, index: number) => {
      setTimeout(() => { ... setTimeline((prev) => [...prev,
          { id: `event-${index}`, timestamp: eventTime, message: event.message || event }]);
      }, index * 300);
    });
  }
  \<close>
\<close>

datatype timer = Timer (delay: nat) (index: nat) (event: json)

definition schedule_events :: "json \<Rightarrow> timer list" where
  "schedule_events data =
     (case js_member data (lit ''events'') of
        Some (JArr es) \<Rightarrow> map (\<lambda>(i, ev). Timer (i * 300) i ev) (zip [0..<length es] es)
      | _ \<Rightarrow> [])"

text \<open>
  One step of the page: a state update that React runs, an updater that throws while
  React runs it, or a render of the page with the state reached.
\<close>

datatype step = Update effect | UpdaterThrows | Render

text \<open>
  A timer that fires: it calls \<open>setTimeline\<close> with an updater. The event object is built
  inside the updater; for a \<open>null\<close> element \<open>event.message\<close> throws a \<open>TypeError\<close> there.
\<close>

definition fire_timer :: "env \<Rightarrow> timer \<Rightarrow> step" where
  "fire_timer e t =
     (if event t = JNull then UpdaterThrows
      else Update (AppendTimeline
        \<lparr> id' = lit ''event-'' @ showNat (index t), timestamp = eventTime e (index t),
          message = or_else (js_member (event t) (lit ''message'')) (event t),
          type' = None \<rparr>))"

text \<open>
  The \<open>try\<close> block, lines 40 to 98, after the \<open>fetch\<close> has settled. It gives the
  effects performed, the timers set, and the value thrown if the block was left by a
  throw.
\<close>

definition try_block :: "env \<Rightarrow> fetch_outcome \<Rightarrow> effect list \<times> timer list \<times> thrown option" where
  "try_block e outcome =
     (case outcome of
        Rejected t \<Rightarrow> ([], [], Some t)
      | Resolved r \<Rightarrow>
          if \<not> ok r then
            ([], [], Some (ErrorObject
               (lit ''Backend error: '' @ showNat (status r) @ lit '' '' @ statusText r)))
          else
            (case json_result r of
               Inl t \<Rightarrow> ([], [], Some t)
             | Inr data \<Rightarrow>
                 if data = JNull then
                   ([AppendTimeline (processing_event e)], [],
                    Some (ErrorObject (typeErrorMessage e)))
                 else
                   ([AppendTimeline (processing_event e),
                     AppendTimeline (complete_event e),
                     SetAnswer (or_else (js_member data (lit ''answer''))
                                  (JStr (lit ''No answer provided by the backend.''))),
                     SetCitations (or_else (js_member data (lit ''citations'')) (JArr [])),
                     ToastSuccess (lit ''Research completed!'')],
                    schedule_events data, None)))"

text \<open>The \<open>catch\<close> block, lines 99 to 116.\<close>

definition catch_block :: "env \<Rightarrow> thrown \<Rightarrow> effect list" where
  "catch_block e err =
     (let errorMessage =
            (case err of ErrorObject m \<Rightarrow> m | OtherValue \<Rightarrow> lit ''Failed to connect to backend'')
      in [SetError (Some errorMessage),
          AppendTimeline (error_event e errorMessage),
          ToastError (lit ''Research failed'') errorMessage])"

text \<open>Lines 24 to 38: the effects before the \<open>fetch\<close>.\<close>

definition begin_effects :: "env \<Rightarrow> jsstring \<Rightarrow> effect list" where
  "begin_effects e query =
     [SetIsLoading True, SetError None, SetTimeline [], SetAnswer (JStr []),
      SetCitations (JArr []), SetTimeline [start_event e query]]"

text \<open>
  \<open>handleResearch\<close>: the effects of the call in program order (the \<open>finally\<close> block
  last), and the timers it leaves behind. Nothing is awaited after the timers are set,
  so every timer fires after the last effect of the call.
\<close>

definition handleResearch :: "env \<Rightarrow> jsstring \<Rightarrow> fetch_outcome \<Rightarrow> effect list \<times> timer list" where
  "handleResearch e query outcome =
     (case try_block e outcome of
        (effs, timers, thrown) \<Rightarrow>
          (begin_effects e query @ effs @
             (case thrown of None \<Rightarrow> [] | Some err \<Rightarrow> catch_block e err) @
             [SetIsLoading False],
           timers))"

section \<open>Rendering the page\<close>

text \<open>
  A child of a React element (React 18): strings and numbers are text, booleans and
  \<open>null\<close> render nothing, an array renders its elements, and an object that is not a
  React element makes the render throw. A value from \<open>response.json()\<close> is never a React
  element.
\<close>

fun valid_child :: "json \<Rightarrow> bool" where
  "valid_child (JObj kvs) = False"
| "valid_child (JArr vs) = list_all valid_child vs"
| "valid_child v = True"

text \<open>
  \<open>Timeline\<close> (components/research/Timeline.tsx) renders \<^verbatim>\<open><span>{event.timestamp}</span>\<close>
  and \<^verbatim>\<open><p ...>{event.message}</p>\<close> for each event; the render completes when every
  message is a valid child.
\<close>

definition renders_Timeline :: "TimelineEvent list \<Rightarrow> bool" where
  "renders_Timeline events = list_all (\<lambda>ev. valid_child (message ev)) events"

text \<open>
  \<open>x > 0\<close> for the value \<open>x\<close> of a property read (\<open>None\<close> is \<open>undefined\<close>): \<open>undefined\<close>
  and \<open>null\<close> are not greater than 0, \<open>true\<close> is, a number is compared; the other values
  are converted by the engine. The result is \<open>None\<close> when the conversion throws.
\<close>

definition gt_zero :: "env \<Rightarrow> json option \<Rightarrow> bool option" where
  "gt_zero e x =
     (case x of
        None \<Rightarrow> Some False
      | Some JNull \<Rightarrow> Some False
      | Some (JBool b) \<Rightarrow> Some b
      | Some (JNum r) \<Rightarrow> Some (0 < r)
      | Some v \<Rightarrow> coercedGtZero e v)"

text \<open>
  \<^verbatim>\<open>href={citation.url}\<close>: React leaves the attribute out for \<open>undefined\<close>, \<open>null\<close> and
  booleans and writes strings and numbers as they are; an array or an object is
  converted to a string by the engine.
\<close>

definition href_ok :: "env \<Rightarrow> json option \<Rightarrow> bool" where
  "href_ok e x =
     (case x of
        Some (JArr vs) \<Rightarrow> attributeOk e (JArr vs)
      | Some (JObj kvs) \<Rightarrow> attributeOk e (JObj kvs)
      | _ \<Rightarrow> True)"

text \<open>
  One citation of \<open>AnswerPanel\<close> (components/research/AnswerPanel.tsx, lines 35 to 51):
  \<^verbatim>\<open><a key={index} href={citation.url} ...> ... {citation.title || `Source ${index + 1}`}\<close>.
  \<open>citation.url\<close> throws for a \<open>null\<close> citation.
\<close>

definition renders_citation :: "env \<Rightarrow> nat \<times> json \<Rightarrow> bool" where
  "renders_citation e ic =
     (case ic of
        (i, citation) \<Rightarrow>
          citation \<noteq> JNull \<and>
          href_ok e (js_member citation (lit ''url'')) \<and>
          valid_child (or_else (js_member citation (lit ''title''))
                         (JStr (lit ''Source '' @ showNat (i + 1)))))"

text \<open>
  \<^verbatim>\<open>{citations.length > 0 && ( ... citations.map((citation, index) => ...) ... )}\<close>
  with \<open>citations\<close> any JSON value: \<open>null.length\<close> throws; a boolean or a number has no
  \<open>length\<close>; a string has its length and no \<open>map\<close>, so that \<open>citations.map\<close> throws when
  the string is not empty; an array is mapped; an object has the \<open>length\<close> member it
  carries and no function \<open>map\<close>.
\<close>

definition renders_citations :: "env \<Rightarrow> json \<Rightarrow> bool" where
  "renders_citations e c =
     (case c of
        JNull \<Rightarrow> False
      | JBool b \<Rightarrow> True
      | JNum r \<Rightarrow> True
      | JStr s \<Rightarrow> s = []
      | JArr cs \<Rightarrow> list_all (renders_citation e) (zip [0..<length cs] cs)
      | JObj kvs \<Rightarrow> gt_zero e (js_member c (lit ''length'')) = Some False)"

text \<open>
  \<open>AnswerPanel\<close>, lines 15 to 57: \<^verbatim>\<open>if (!answer) { return null; }\<close>, then
  \<^verbatim>\<open><p ...>{answer}</p>\<close> and the citations.
\<close>

definition renders_AnswerPanel :: "env \<Rightarrow> json \<Rightarrow> json \<Rightarrow> bool" where
  "renders_AnswerPanel e a c =
     (if \<not> truthy a then True else valid_child a \<and> renders_citations e c)"

text \<open>
  The render of the page, lines 122 to 158, completes (\<open>True\<close>) or throws (\<open>False\<close>):
  \<^verbatim>\<open>{(timeline.length > 0 || answer) && ( ... <Timeline events={timeline} /> ...
      <AnswerPanel answer={answer} citations={citations} /> ... )}\<close>.
  When the condition is falsy its value, the falsy \<open>answer\<close>, is the child. The header,
  the form and the alert with the error string do not depend on backend data.
\<close>

definition renders :: "env \<Rightarrow> ui_state \<Rightarrow> bool" where
  "renders e s =
     (if timeline s \<noteq> [] \<or> truthy (answer s)
      then renders_Timeline (timeline s) \<and> renders_AnswerPanel e (answer s) (citations s)
      else valid_child (answer s))"

text \<open>
  The page is mounted with its state, or unmounted. No error boundary is around the
  page, so that React unmounts it when a render or an updater throws; updates of an
  unmounted page are dropped.
\<close>

datatype page = Mounted ui_state | Unmounted

text \<open>
  One step on the page. \<open>renders_ok\<close> says for which states the render completes; for
  this page it is \<open>renders e\<close>.
\<close>

fun exec :: "(ui_state \<Rightarrow> bool) \<Rightarrow> page \<Rightarrow> step \<Rightarrow> page" where
  "exec renders_ok Unmounted st = Unmounted"
| "exec renders_ok (Mounted s) (Update x) = Mounted (apply_effect s x)"
| "exec renders_ok (Mounted s) UpdaterThrows = Unmounted"
| "exec renders_ok (Mounted s) Render = (if renders_ok s then Mounted s else Unmounted)"

definition run_steps :: "(ui_state \<Rightarrow> bool) \<Rightarrow> page \<Rightarrow> step list \<Rightarrow> page" where
  "run_steps renders_ok p steps = foldl (exec renders_ok) p steps"

text \<open>The timeline the page shows, if it is mounted.\<close>

definition page_timeline :: "page \<Rightarrow> TimelineEvent list option" where
  "page_timeline p = (case p of Mounted s \<Rightarrow> Some (timeline s) | Unmounted \<Rightarrow> None)"

text \<open>
  The steps of one request. React 18 renders once after the updates of one task: the
  effects before the \<open>fetch\<close> run in the submit handler, the other effects of the call
  after the \<open>fetch\<close> has settled (nothing is awaited between them), and each timer
  fires in a task of its own, in the order of the delays and, among equal delays, in the
  order the timers were set. Timers that an earlier request left behind are outside this
  model of a single request.
\<close>

definition request_steps :: "env \<Rightarrow> jsstring \<Rightarrow> fetch_outcome \<Rightarrow> step list" where
  "request_steps e query outcome =
     (case handleResearch e query outcome of
        (effs, timers) \<Rightarrow>
          map Update (take (length (begin_effects e query)) effs) @ [Render] @
          map Update (drop (length (begin_effects e query)) effs) @ [Render] @
          concat (map (\<lambda>t. [fire_timer e t, Render]) (sort_key delay timers)))"

text \<open>The updates among the steps that React runs: those that find the page mounted.\<close>

fun applied :: "(ui_state \<Rightarrow> bool) \<Rightarrow> page \<Rightarrow> step list \<Rightarrow> effect list" where
  "applied renders_ok p [] = []"
| "applied renders_ok p (st # steps) =
     (case (p, st) of (Mounted s, Update x) \<Rightarrow> [x] | _ \<Rightarrow> []) @
     applied renders_ok (exec renders_ok p st) steps"

text \<open>
  Every state update of one request that React runs, in order: all updates of the call
  and of its timers while the page stays mounted, none after a render or an updater has
  thrown. The effects before the \<open>fetch\<close> set all five cells, so the list is the same
  from whatever state the request starts.
\<close>

definition all_effects :: "env \<Rightarrow> jsstring \<Rightarrow> fetch_outcome \<Rightarrow> effect list" where
  "all_effects e query outcome =
     applied (renders e) (Mounted initial_state) (request_steps e query outcome)"

section \<open>The health hook (hooks/useHealthCheck.ts)\<close>

datatype HealthStatus = Online | Offline | Checking

text \<open>
  Lines 173 to 176:
  \<^verbatim>\<open>fetch(HEALTH_CHECK_ENDPOINT, { method: "GET", signal: AbortSignal.timeout(5000) })\<close>.
\<close>

definition health_fetch :: "jsstring option \<Rightarrow> fetch_request" where
  "health_fetch vite_api_url =
     \<lparr> url = HEALTH_CHECK_ENDPOINT vite_api_url, http_method = lit ''GET'', headers = [],
       body = None, timeout_ms = Some 5000 \<rparr>"

text \<open>
  What the network does with one request: the response arrives after some milliseconds,
  the request fails after some milliseconds, or nothing ever happens. A \<open>fetch\<close> with
  \<open>AbortSignal.timeout(ms)\<close> settles with what the network did before \<open>ms\<close> milliseconds
  have passed, and rejects with the engine's \<open>TimeoutError\<close> otherwise; without a
  signal it settles when the network does, and never on a silent network (\<open>None\<close>).
\<close>

datatype network = Responds nat response | Fails nat thrown | Silent

definition settle :: "fetch_request \<Rightarrow> thrown \<Rightarrow> network \<Rightarrow> fetch_outcome option" where
  "settle req timeoutError net =
     (case timeout_ms req of
        None \<Rightarrow>
          (case net of
             Responds t r \<Rightarrow> Some (Resolved r)
           | Fails t err \<Rightarrow> Some (Rejected err)
           | Silent \<Rightarrow> None)
      | Some ms \<Rightarrow>
          (case net of
             Responds t r \<Rightarrow> Some (if t < ms then Resolved r else Rejected timeoutError)
           | Fails t err \<Rightarrow> Some (if t < ms then Rejected err else Rejected timeoutError)
           | Silent \<Rightarrow> Some (Rejected timeoutError)))"

text \<open>
  \<open>checkHealth\<close>, lines 171 to 186, after its \<open>fetch\<close> has settled: the value it passes
  to \<open>setStatus\<close>.
\<close>

definition checkHealth :: "fetch_outcome \<Rightarrow> HealthStatus" where
  "checkHealth outcome =
     (case outcome of
        Resolved r \<Rightarrow> (if ok r then Online else Offline)
      | Rejected err \<Rightarrow> Offline)"

text \<open>
  The status the hook returns once the polls in the list have settled, in the order they
  settled: \<open>useState("checking")\<close>, then one \<open>setStatus\<close> per settled poll.
\<close>

definition useHealthCheck :: "fetch_outcome list \<Rightarrow> HealthStatus" where
  "useHealthCheck settled = foldl (\<lambda>st outcome. checkHealth outcome) Checking settled"

text \<open>
  The claim's side of the health property: the request resolved within the timeout with
  a status from 200 to 299.
\<close>

definition resolved_2xx_within :: "nat \<Rightarrow> network \<Rightarrow> bool" where
  "resolved_2xx_within ms net =
     (case net of Responds t r \<Rightarrow> t < ms \<and> 200 \<le> status r \<and> status r < 300 | _ \<Rightarrow> False)"

section \<open>The contracts of the API layer\<close>

text \<open>
  The inbound request contract in the specification's words:
  \<open>{query: string, source: string, maxIterations?: int}\<close>.
\<close>

definition is_string :: "json option \<Rightarrow> bool" where
  "is_string v = (case v of Some (JStr s) \<Rightarrow> True | _ \<Rightarrow> False)"

definition is_optional_int :: "json option \<Rightarrow> bool" where
  "is_optional_int v =
     (case v of None \<Rightarrow> True | Some (JNum n) \<Rightarrow> n = of_int \<lfloor>n\<rfloor> | Some _ \<Rightarrow> False)"

definition conforms_inbound_contract :: "fetch_request \<Rightarrow> bool" where
  "conforms_inbound_contract req =
     (case body req of
        Some (JObj kvs) \<Rightarrow>
          is_string (js_member (JObj kvs) (lit ''query'')) \<and>
          is_string (js_member (JObj kvs) (lit ''source'')) \<and>
          is_optional_int (js_member (JObj kvs) (lit ''maxIterations''))
      | _ \<Rightarrow> False)"

section \<open>The reflection loop of the backend\<close>

text \<open>
  Modelled from the spec: the confidence threshold of the Reflection Controller
  (section 4.3, default 0.75). The controller is part of the Python backend, which is
  not among the sources.
\<close>

definition confidence_threshold :: rat where
  "confidence_threshold = 3 / 4"

text \<open>
  Modelled from the spec: the sufficiency heuristic of the Reflection Controller,
  \<open>sufficient = confidenceScore >= threshold OR iterationIndex + 1 >= maxIterations\<close>.
  \<open>maxIterations\<close> of a \<open>ResearchRequest\<close> is a number of iterations (default 3), a
  natural number.
\<close>

definition sufficient :: "rat \<Rightarrow> nat \<Rightarrow> nat \<Rightarrow> bool" where
  "sufficient confidenceScore iterationIndex maxIterations \<longleftrightarrow>
     confidenceScore \<ge> confidence_threshold \<or> iterationIndex + 1 \<ge> maxIterations"

text \<open>
  Modelled from the spec: what one round of SEARCHING and REFLECTING comes to: a
  \<open>ReflectionVerdict\<close> with its confidence score, or the end of the loop by a timeout, a
  cancellation or a failure during the round (section 5: the controller is forced into
  SYNTHESIZING with whatever evidence exists; FAILED is reachable from any state).
\<close>

datatype round_outcome = Verdict rat | Interrupted

text \<open>
  Modelled from the spec: the loop of the Reflection Controller,
  \<open>INITIAL \<rightarrow> SEARCHING \<rightarrow> REFLECTING \<rightarrow> (SEARCHING | SYNTHESIZING) \<rightarrow> DONE\<close>, with its
  invariant that the iteration index is bounded by \<open>maxIterations\<close>: SEARCHING is
  entered with the iteration index \<open>i\<close> only while iteration budget remains
  (\<open>i < maxIterations\<close>). In REFLECTING the verdict of the round decides between
  SYNTHESIZING and another round with the next index. The result is the list of the
  iteration indices of the rounds that ran, in the order they ran; a round that was
  interrupted is counted.
\<close>

function reflection_loop :: "(nat \<Rightarrow> round_outcome) \<Rightarrow> nat \<Rightarrow> nat \<Rightarrow> nat list" where
  "reflection_loop outcome_of maxIterations i =
     (if i < maxIterations then
        i # (case outcome_of i of
               Verdict confidenceScore \<Rightarrow>
                 if sufficient confidenceScore i maxIterations then []
                 else reflection_loop outcome_of maxIterations (Suc i)
             | Interrupted \<Rightarrow> [])
      else [])"
  by pat_completeness auto
termination
  by (relation "measure (\<lambda>(r, m, i). m - i)") (auto simp: sufficient_def)

declare reflection_loop.simps [simp del]

text \<open>
  Modelled from the spec: the Orchestrator's \<open>run\<close> (section 4.6), as far as the search
  rounds go: when the input-stage safety pipeline blocks, no search is run; otherwise
  the loop of the Reflection Controller runs from the iteration index 0.
\<close>

definition search_rounds :: "bool \<Rightarrow> (nat \<Rightarrow> round_outcome) \<Rightarrow> nat \<Rightarrow> nat list" where
  "search_rounds input_blocked outcome_of maxIterations =
     (if input_blocked then [] else reflection_loop outcome_of maxIterations 0)"

text \<open>
  Modelled from the spec: \<open>ResearchResult.iterationsUsed\<close>, the number of search rounds
  of the request (1 in scenario A, \<open>maxIterations\<close> in scenario B).
\<close>

definition iterationsUsed :: "bool \<Rightarrow> (nat \<Rightarrow> round_outcome) \<Rightarrow> nat \<Rightarrow> nat" where
  "iterationsUsed input_blocked outcome_of maxIterations =
     length (search_rounds input_blocked outcome_of maxIterations)"

section \<open>Retries of the search connector\<close>

text \<open>
  Modelled from the spec: \<open>SearchResult\<close> of the data model (section 3),
  \<open>{url, title, snippet, sourceProvider, fetchedAt}\<close>; the backend's own type is not
  among the sources.
\<close>

record SearchResult =
  result_url :: jsstring
  title :: jsstring
  snippet :: jsstring
  sourceProvider :: jsstring
  fetchedAt :: nat

text \<open>Modelled from the spec: \<open>ProviderError{transient|permanent}\<close> of the error taxonomy (section 7).\<close>

datatype error_kind = Transient | Permanent

text \<open>
  Modelled from the spec: the search provider capability (section 6),
  \<open>search(text) -> [SearchResult] | RateLimited | ProviderError\<close>. The provider code is
  part of the Python backend, which is not among the sources.
\<close>

datatype provider_reply = Results "SearchResult list" | RateLimited | ProviderError error_kind

text \<open>
  Modelled from the spec: what one \<open>search\<close> of the Search Connector comes to, as
  scenario D observes it: the provider calls made, the backoffs waited, and the result
  or the error surfaced to the caller.
\<close>

record search_outcome =
  calls :: nat
  waits :: "nat list"
  result :: "error_kind + SearchResult list"

text \<open>
  Modelled from the spec: the retry loop of the Search Connector on a cache miss
  (sections 4.2 and 7). \<open>provider k\<close> is the provider's reply to call number \<open>k\<close> (from
  0), \<open>made\<close> the number of calls made so far, \<open>ws\<close> the backoffs waited so far, the
  last argument the attempts left. A \<open>RateLimited\<close> or transient reply to call number
  \<open>made\<close> is retried after a backoff of \<open>2 ^ (made + 1)\<close> (base 2; the jitter is added
  by the implementation) while attempts are left, and surfaces as
  \<open>ProviderError(transient)\<close> when none is; a permanent error surfaces at once.
\<close>

fun search_retry :: "(nat \<Rightarrow> provider_reply) \<Rightarrow> nat \<Rightarrow> nat list \<Rightarrow> nat \<Rightarrow> search_outcome" where
  "search_retry provider made ws 0 = \<lparr> calls = made, waits = ws, result = Inl Transient \<rparr>"
| "search_retry provider made ws (Suc left) =
     (case provider made of
        Results rs \<Rightarrow> \<lparr> calls = Suc made, waits = ws, result = Inr rs \<rparr>
      | RateLimited \<Rightarrow>
          search_retry provider (Suc made) (if left = 0 then ws else ws @ [2 ^ Suc made]) left
      | ProviderError Transient \<Rightarrow>
          search_retry provider (Suc made) (if left = 0 then ws else ws @ [2 ^ Suc made]) left
      | ProviderError Permanent \<Rightarrow> \<lparr> calls = Suc made, waits = ws, result = Inl Permanent \<rparr>)"

text \<open>Modelled from the spec: the cap of the retry loop, 3 attempts in total.\<close>

definition max_attempts :: nat where
  "max_attempts = 3"

text \<open>Modelled from the spec: \<open>search(query)\<close> on a cache miss.\<close>

definition search :: "(nat \<Rightarrow> provider_reply) \<Rightarrow> search_outcome" where
  "search provider = search_retry provider 0 [] max_attempts"

section \<open>Predicates on effects and outcomes\<close>

text \<open>An effect that replaces the timeline instead of appending to it.\<close>

definition replaces_timeline :: "effect \<Rightarrow> bool" where
  "replaces_timeline x = (case x of SetTimeline es \<Rightarrow> True | _ \<Rightarrow> False)"

text \<open>A step that replaces the timeline.\<close>

definition replaces_step :: "step \<Rightarrow> bool" where
  "replaces_step st = (case st of Update x \<Rightarrow> replaces_timeline x | _ \<Rightarrow> False)"

text \<open>An effect that appends an event of type \<open>"error"\<close>.\<close>

definition appends_error :: "effect \<Rightarrow> bool" where
  "appends_error x = (case x of AppendTimeline ev \<Rightarrow> type' ev = Some Error | _ \<Rightarrow> False)"

text \<open>A failed request: the \<open>fetch\<close> rejects, or the response status is not ok.\<close>

definition request_fails :: "fetch_outcome \<Rightarrow> bool" where
  "request_fails outcome = (case outcome of Rejected err \<Rightarrow> True | Resolved r \<Rightarrow> \<not> ok r)"

text \<open>
  Modelled from the spec: the provider replies that are retried locally (section 7), a
  rate limit or a transient error.
\<close>

definition retryable :: "provider_reply \<Rightarrow> bool" where
  "retryable r = (r = RateLimited \<or> r = ProviderError Transient)"

section \<open>Concrete inputs\<close>

text \<open>An environment for the examples: a clock that advances by a second per reading.\<close>

definition example_env :: env where
  "example_env =
     \<lparr> startTime = lit ''10:30:00'', processingTime = lit ''10:30:01'',
       completionTime = lit ''10:30:02'', errorTime = lit ''10:30:03'',
       eventTime = (\<lambda>i. lit ''10:30:0'' @ showNat (4 + i)),
       typeErrorMessage = lit ''Cannot read properties of null'',
       coercedGtZero = (\<lambda>v. Some False), attributeOk = (\<lambda>v. True) \<rparr>"

text \<open>
  The response the frontend's README documents under "Backend Requirements": an answer,
  a citation list and a \<open>timeline\<close> array.
\<close>

definition documented_response :: response where
  "documented_response =
     \<lparr> status = 200, statusText = lit ''OK'',
       json_result = Inr (JObj
         [(lit ''answer'', JStr (lit ''Comprehensive research answer...'')),
          (lit ''citations'', JArr [JObj [(lit ''url'', JStr (lit ''https://source1.com'')),
                                         (lit ''title'', JStr (lit ''Source Title''))]]),
          (lit ''timeline'', JArr [JObj [(lit ''id'', JStr (lit ''evt_1'')),
                                        (lit ''timestamp'', JStr (lit ''2024-01-15T10:30:00Z'')),
                                        (lit ''message'', JStr (lit ''Started research'')),
                                        (lit ''type'', JStr (lit ''info''))]])]) \<rparr>"

text \<open>A response that carries one backend event in the \<open>events\<close> array the page reads.\<close>

definition events_response :: response where
  "events_response =
     \<lparr> status = 200, statusText = lit ''OK'',
       json_result = Inr (JObj
         [(lit ''answer'', JStr (lit ''A'')),
          (lit ''events'', JArr [JStr (lit ''Searching the web'')])]) \<rparr>"

text \<open>A response whose second backend event is \<open>null\<close>.\<close>

definition null_event_response :: response where
  "null_event_response =
     \<lparr> status = 200, statusText = lit ''OK'',
       json_result = Inr (JObj
         [(lit ''answer'', JStr (lit ''A'')),
          (lit ''events'', JArr [JStr (lit ''first''), JNull, JStr (lit ''third'')])]) \<rparr>"

text \<open>A response whose first backend event is an object without a \<open>message\<close>.\<close>

definition object_event_response :: response where
  "object_event_response =
     \<lparr> status = 200, statusText = lit ''OK'',
       json_result = Inr (JObj
         [(lit ''answer'', JStr (lit ''A'')),
          (lit ''events'', JArr [JObj [(lit ''step'', JStr (lit ''search''))],
                                JStr (lit ''second'')])]) \<rparr>"

text \<open>A response with the status 500.\<close>

definition failing_response :: response where
  "failing_response =
     \<lparr> status = 500, statusText = lit ''Internal Server Error'', json_result = Inl OtherValue \<rparr>"

text \<open>
  The provider mock of scenario D (rate limited twice, then an empty result list), and
  a provider that is always rate limited.
\<close>

definition scenario_D :: "nat \<Rightarrow> provider_reply" where
  "scenario_D k = (if k < 2 then RateLimited else Results [])"

definition always_limited :: "nat \<Rightarrow> provider_reply" where
  "always_limited k = RateLimited"

lemmas page_defs = all_effects_def request_steps_def handleResearch_def try_block_def
  catch_block_def begin_effects_def schedule_events_def fire_timer_def run_def ok_def
  js_member_def or_else_def Let_def

lemmas render_defs = renders_def renders_Timeline_def renders_AnswerPanel_def
  renders_citations_def renders_citation_def href_ok_def gt_zero_def

lemmas event_defs = start_event_def processing_event_def complete_event_def error_event_def

section \<open>The form submits trimmed, non-empty questions\<close>

lemma trim_no_leading: "trim s \<noteq> [] \<Longrightarrow> \<not> is_whitespace (hd (trim s))"
proof -
  assume ne: "trim s \<noteq> []"
  define t where "t = dropWhile is_whitespace s"
  have tr: "trim s = rev (dropWhile is_whitespace (rev t))"
    by (simp add: trim_def t_def)
  from ne tr have tne: "t \<noteq> []" by auto
  then have hd_t: "\<not> is_whitespace (hd t)"
    unfolding t_def by (metis hd_dropWhile)
  obtain us where us: "rev t = us @ dropWhile is_whitespace (rev t)"
    by (metis takeWhile_dropWhile_id)
  then have "t = rev (dropWhile is_whitespace (rev t)) @ rev us"
    by (metis rev_append rev_rev_ident)
  with ne tr have "hd t = hd (trim s)"
    by (metis hd_append2)
  with hd_t show ?thesis by simp
qed

lemma trim_no_trailing: "trim s \<noteq> [] \<Longrightarrow> \<not> is_whitespace (last (trim s))"
proof -
  assume ne: "trim s \<noteq> []"
  define r where "r = dropWhile is_whitespace (rev (dropWhile is_whitespace s))"
  have tr: "trim s = rev r" by (simp add: trim_def r_def)
  with ne have "r \<noteq> []" by auto
  then have "\<not> is_whitespace (hd r)"
    unfolding r_def by (metis hd_dropWhile)
  moreover from \<open>r \<noteq> []\<close> have "last (rev r) = hd r"
    by (simp add: last_rev)
  ultimately show ?thesis using tr by simp
qed

lemma trim_idem: "trim (trim s) = trim s"
proof (cases "trim s = []")
  case True
  moreover have "trim [] = []" by (simp add: trim_def)
  ultimately show ?thesis by simp
next
  case False
  define u where "u = trim s"
  from False have h: "\<not> is_whitespace (hd u)" and l: "\<not> is_whitespace (last u)" and ne: "u \<noteq> []"
    unfolding u_def by (simp_all add: trim_no_leading trim_no_trailing)
  from ne h have d1: "dropWhile is_whitespace u = u"
    by (cases u) simp_all
  from ne l have d2: "dropWhile is_whitespace (rev u) = rev u"
    by (cases "rev u") (simp_all add: last_rev [symmetric] hd_rev)
  show ?thesis
    unfolding u_def [symmetric] by (simp add: trim_def d1 d2)
qed

text \<open>
  C8. \<open>onSubmit\<close> is called only with the entered question trimmed of leading and
  trailing whitespace and non-empty, and only while no request is loading; a question
  that is empty after trimming is therefore never submitted.
\<close>

theorem handleSubmit_trimmed_nonempty_idle:
  assumes "handleSubmit query loading = Some q"
  shows "q = trim query \<and> q \<noteq> [] \<and> \<not> loading \<and> trim q = q \<and>
         \<not> is_whitespace (hd q) \<and> \<not> is_whitespace (last q) \<and>
         \<not> submit_disabled query loading"
proof -
  from assms have q: "q = trim query" and ne: "trim query \<noteq> []" and idle: "\<not> loading"
    by (auto simp: handleSubmit_def split: if_splits)
  show ?thesis
    using q ne idle trim_no_leading [OF ne] trim_no_trailing [OF ne]
    by (simp add: trim_idem submit_disabled_def)
qed

theorem handleSubmit_trimmed_nonempty_idle_witness:
  "handleSubmit (lit '' hi '') False = Some (lit ''hi'') \<and>
   lit ''hi'' = trim (lit '' hi '') \<and> lit ''hi'' \<noteq> [] \<and>
   \<not> submit_disabled (lit '' hi '') False"
proof -
  have h: "handleSubmit (lit '' hi '') False = Some (lit ''hi'')"
    by (simp add: handleSubmit_def trim_def lit_def is_whitespace_def)
  from handleSubmit_trimmed_nonempty_idle [OF h] h show ?thesis by blast
qed

section \<open>The request body of the page\<close>

text \<open>
  C1 as stated fails: the body the page sends does not conform to the inbound request
  contract, because it has no \<open>source\<close> member.
\<close>

theorem research_body_lacks_source:
  "\<not> conforms_inbound_contract (research_fetch None (lit ''What is quantum computing?''))"
  by (simp add: conforms_inbound_contract_def research_fetch_def is_string_def js_member_def
      lit_def)

text \<open>
  C1, amended. For every research request of the page, the request is a POST to the
  research endpoint whose body is the JSON object with the single member \<open>query\<close>, the
  submitted string; it has no \<open>source\<close> and no \<open>maxIterations\<close> member, so it never
  conforms to the inbound request contract.
\<close>

theorem research_body_query_only:
  "url (research_fetch v q) = API_BASE_URL v @ lit ''/api/research'' \<and>
   http_method (research_fetch v q) = lit ''POST'' \<and>
   (\<exists>kvs. body (research_fetch v q) = Some (JObj kvs) \<and> map fst kvs = [lit ''query''] \<and>
      js_member (JObj kvs) (lit ''query'') = Some (JStr q) \<and>
      js_member (JObj kvs) (lit ''source'') = None \<and>
      js_member (JObj kvs) (lit ''maxIterations'') = None) \<and>
   \<not> conforms_inbound_contract (research_fetch v q)"
  by (simp add: conforms_inbound_contract_def research_fetch_def is_string_def js_member_def
      lit_def API_ENDPOINTS_def)

section \<open>The updates that React runs\<close>

lemma begin_effects_state:
  "foldl apply_effect s (begin_effects e q) =
     \<lparr> isLoading = True, error = None, timeline = [start_event e q], answer = JStr [],
       citations = JArr [] \<rparr>"
  by (cases s) (simp add: begin_effects_def)

lemma applied_updates:
  "applied R (Mounted s) (map Update xs @ steps) =
     xs @ applied R (Mounted (foldl apply_effect s xs)) steps"
  by (induction xs arbitrary: s) simp_all

lemma request_steps_begin:
  "request_steps e q outcome =
     map Update (begin_effects e q) @ drop 6 (request_steps e q outcome)"
  by (simp add: request_steps_def handleResearch_def begin_effects_def split: prod.splits)

lemma all_effects_any_start:
  "applied (renders e) (Mounted s) (request_steps e q outcome) = all_effects e q outcome"
proof -
  have "applied (renders e) (Mounted s') (request_steps e q outcome) =
      begin_effects e q @
      applied (renders e)
        (Mounted \<lparr> isLoading = True, error = None, timeline = [start_event e q],
                   answer = JStr [], citations = JArr [] \<rparr>)
        (drop 6 (request_steps e q outcome))" for s'
    by (subst request_steps_begin) (simp only: applied_updates begin_effects_state)
  then show ?thesis by (simp add: all_effects_def)
qed

text \<open>
  A \<open>null\<close> backend event: the first timer appends its event, the updater of the second
  throws, the page is unmounted and the third timer changes nothing.
\<close>

lemma null_event_unmounts:
  "run_steps (renders example_env) (Mounted initial_state)
     (request_steps example_env (lit ''q'') (Resolved null_event_response)) = Unmounted \<and>
   map_option (map id') (page_timeline (run_steps (renders example_env) (Mounted initial_state)
     (take 16 (request_steps example_env (lit ''q'') (Resolved null_event_response))))) =
     Some [lit ''start'', lit ''processing'', lit ''complete'', lit ''event-0''] \<and>
   length (all_effects example_env (lit ''q'') (Resolved null_event_response)) = 13"
  by (simp add: page_defs render_defs event_defs null_event_response_def initial_state_def
      example_env_def lit_def showNat.simps digit_def run_steps_def page_timeline_def)

text \<open>
  A backend event that is an object without a \<open>message\<close>: its timer appends the object
  as the message, the render of \<open>Timeline\<close> throws, and the page is unmounted.
\<close>

lemma object_message_unmounts:
  "run_steps (renders example_env) (Mounted initial_state)
     (request_steps example_env (lit ''q'') (Resolved object_event_response)) = Unmounted \<and>
   map_option (map id') (page_timeline (run_steps (renders example_env) (Mounted initial_state)
     (take 14 (request_steps example_env (lit ''q'') (Resolved object_event_response))))) =
     Some [lit ''start'', lit ''processing'', lit ''complete''] \<and>
   page_timeline (run_steps (renders example_env) (Mounted initial_state)
     (take 16 (request_steps example_env (lit ''q'') (Resolved object_event_response)))) = None"
  by (simp add: page_defs render_defs event_defs object_event_response_def initial_state_def
      example_env_def lit_def showNat.simps digit_def run_steps_def page_timeline_def)

section \<open>Backend events on the timeline\<close>

text \<open>
  C2. The claim says that the events the page appends for a successful response are the
  elements of the response's \<open>timeline\<close> member. On the response that the frontend's
  README documents, the page sets no timer and appends nothing from \<open>timeline\<close>: the
  final timeline holds its own three events only.
\<close>

theorem timeline_field_ignored:
  "snd (handleResearch example_env (lit ''q'') (Resolved documented_response)) = [] \<and>
   map id' (timeline (run initial_state
      (all_effects example_env (lit ''q'') (Resolved documented_response)))) =
     [lit ''start'', lit ''processing'', lit ''complete'']"
  by (simp add: page_defs render_defs event_defs documented_response_def initial_state_def
      example_env_def lit_def showNat.simps digit_def)

text \<open>
  C3. The claim says that every backend-provided event is appended before the final
  completion event. On a response with one element in \<open>events\<close>, the page appends the
  completion event first and the backend event after it, when its timer fires.
\<close>

theorem backend_event_after_completion:
  "map id' (timeline (run initial_state
      (all_effects example_env (lit ''q'') (Resolved events_response)))) =
     [lit ''start'', lit ''processing'', lit ''complete'', lit ''event-0'']"
  by (simp add: page_defs render_defs event_defs events_response_def initial_state_def
      example_env_def lit_def showNat.simps digit_def)

section \<open>The timeline is append-only after the start event\<close>

lemma replaces_step_simps:
  "replaces_step (Update x) = replaces_timeline x"
  "replaces_step Render = False"
  "replaces_step UpdaterThrows = False"
  by (simp_all add: replaces_step_def)

lemma run_steps_append:
  "run_steps R p (xs @ ys) = run_steps R (run_steps R p xs) ys"
  by (simp add: run_steps_def)

lemma run_steps_Unmounted: "run_steps R Unmounted xs = Unmounted"
  by (induction xs) (simp_all add: run_steps_def)

lemma steps_keep_timeline:
  assumes "\<forall>st \<in> set xs. \<not> replaces_step st"
    and "run_steps R (Mounted s0) xs = Mounted s'"
  shows "prefix (timeline s0) (timeline s')"
  using assms
proof (induction xs arbitrary: s0)
  case Nil
  then show ?case by (simp add: run_steps_def)
next
  case (Cons st xs)
  have unf: "run_steps R (Mounted s0) (st # xs) = run_steps R (exec R (Mounted s0) st) xs"
    by (simp add: run_steps_def)
  show ?case
  proof (cases st)
    case (Update x)
    have step: "prefix (timeline s0) (timeline (apply_effect s0 x))"
      using Cons.prems(1) Update
      by (cases x) (simp_all add: replaces_step_simps replaces_timeline_def)
    have "run_steps R (Mounted (apply_effect s0 x)) xs = Mounted s'"
      using Cons.prems(2) unf Update by simp
    with Cons.IH [of "apply_effect s0 x"] Cons.prems(1)
    have "prefix (timeline (apply_effect s0 x)) (timeline s')" by simp
    with step show ?thesis by (rule prefix_order.order_trans)
  next
    case UpdaterThrows
    with Cons.prems(2) unf show ?thesis by (simp add: run_steps_Unmounted)
  next
    case Render
    show ?thesis
    proof (cases "R s0")
      case True
      with Cons.prems(2) unf Render have "run_steps R (Mounted s0) xs = Mounted s'" by simp
      with Cons.IH [of s0] Cons.prems(1) show ?thesis by simp
    next
      case False
      with Cons.prems(2) unf Render show ?thesis by (simp add: run_steps_Unmounted)
    qed
  qed
qed

lemma fire_timer_appends: "\<not> replaces_step (fire_timer e t)"
  by (simp add: fire_timer_def replaces_step_def replaces_timeline_def)

lemma request_steps_split:
  "request_steps e q outcome = map Update (begin_effects e q) @ drop 6 (request_steps e q outcome)"
  by (simp add: request_steps_def handleResearch_def begin_effects_def split: prod.splits)

lemma after_begin_append_only:
  "\<forall>st \<in> set (drop 6 (request_steps e q outcome)). \<not> replaces_step st"
proof -
  obtain effs timers thrown where t: "try_block e outcome = (effs, timers, thrown)"
    by (cases "try_block e outcome") auto
  have effs: "\<forall>x \<in> set effs. \<not> replaces_timeline x"
    using t by (auto simp: try_block_def replaces_timeline_def
        split: fetch_outcome.splits if_splits sum.splits)
  have c: "\<forall>x \<in> set (case thrown of None \<Rightarrow> [] | Some err \<Rightarrow> catch_block e err).
      \<not> replaces_timeline x"
    by (auto simp: catch_block_def replaces_timeline_def Let_def split: option.splits)
  have "drop 6 (request_steps e q outcome) =
      [Render] @
      map Update (effs @ (case thrown of None \<Rightarrow> [] | Some err \<Rightarrow> catch_block e err) @
                  [SetIsLoading False]) @
      [Render] @ concat (map (\<lambda>t. [fire_timer e t, Render]) (sort_key delay timers))"
    using t by (simp add: request_steps_def handleResearch_def begin_effects_def)
  then show ?thesis
    using effs c by (auto simp: replaces_step_simps fire_timer_appends replaces_timeline_def)
qed

text \<open>
  C7. After the start event is emitted (the sixth step of the request), the timeline is
  append-only, whatever states make a render throw (\<open>R\<close>; for this page \<open>renders e\<close>):
  when the page shows a timeline after \<open>k'\<close> steps, it showed one after every earlier
  number \<open>k\<close> of steps, and that earlier timeline is a prefix of the later one, so every
  event stays unchanged at its position. Once a render or an updater has thrown, the
  page is unmounted and no update is applied any more.
\<close>

theorem timeline_append_only:
  assumes "6 \<le> k" and "k \<le> k'"
    and "page_timeline (run_steps R (Mounted s) (take k' (request_steps e q outcome))) = Some tl'"
  shows "page_timeline (run_steps R (Mounted s) (take 6 (request_steps e q outcome))) =
           Some [start_event e q] \<and>
         (\<exists>tl. page_timeline (run_steps R (Mounted s) (take k (request_steps e q outcome))) =
                  Some tl \<and> prefix tl tl')"
proof -
  let ?all = "request_steps e q outcome"
  have first: "take 6 ?all = map Update (begin_effects e q)"
    by (subst request_steps_split) (simp add: begin_effects_def)
  have start: "page_timeline (run_steps R (Mounted s) (take 6 ?all)) = Some [start_event e q]"
    unfolding first by (simp add: begin_effects_def run_steps_def page_timeline_def)
  obtain d where d: "k' = k + d" using assms(2) by (auto simp: le_iff_add)
  have tk: "take k' ?all = take k ?all @ take d (drop k ?all)"
    unfolding d by (simp add: take_add)
  have "set (take d (drop k ?all)) \<subseteq> set (drop 6 ?all)"
    using assms(1) by (meson order_trans set_take_subset set_drop_subset_set_drop)
  then have app: "\<forall>st \<in> set (take d (drop k ?all)). \<not> replaces_step st"
    using after_begin_append_only [of e q outcome] by blast
  obtain s' where s': "run_steps R (Mounted s) (take k' ?all) = Mounted s'" and tl': "tl' = timeline s'"
    using assms(3) by (auto simp: page_timeline_def split: page.splits)
  obtain s0 where s0: "run_steps R (Mounted s) (take k ?all) = Mounted s0"
  proof (cases "run_steps R (Mounted s) (take k ?all)")
    case (Mounted s0)
    then show ?thesis using that by blast
  next
    case Unmounted
    with s' tk show ?thesis by (simp add: run_steps_append run_steps_Unmounted)
  qed
  have "run_steps R (Mounted s0) (take d (drop k ?all)) = Mounted s'"
    using s' s0 tk by (simp add: run_steps_append)
  from steps_keep_timeline [OF app this] have "prefix (timeline s0) tl'" by (simp add: tl')
  with s0 have "\<exists>tl. page_timeline (run_steps R (Mounted s) (take k ?all)) = Some tl \<and> prefix tl tl'"
    by (simp add: page_timeline_def)
  with start show ?thesis by simp
qed

theorem timeline_append_only_witness:
  "(6::nat) \<le> 8 \<and> (8::nat) \<le> 16 \<and>
   map_option (map id') (page_timeline (run_steps (renders example_env) (Mounted initial_state)
      (take 16 (request_steps example_env (lit ''q'') (Resolved events_response))))) =
     Some [lit ''start'', lit ''processing'', lit ''complete'', lit ''event-0''] \<and>
   map_option (map id') (page_timeline (run_steps (renders example_env) (Mounted initial_state)
      (take 8 (request_steps example_env (lit ''q'') (Resolved events_response))))) =
     Some [lit ''start'', lit ''processing''] \<and>
   (\<exists>tl tl'.
      page_timeline (run_steps (renders example_env) (Mounted initial_state)
        (take 8 (request_steps example_env (lit ''q'') (Resolved events_response)))) = Some tl \<and>
      page_timeline (run_steps (renders example_env) (Mounted initial_state)
        (take 16 (request_steps example_env (lit ''q'') (Resolved events_response)))) = Some tl' \<and>
      prefix tl tl')"
proof -
  have a: "(6::nat) \<le> 8" and b: "(8::nat) \<le> 16" by simp_all
  have ev: "map_option (map id') (page_timeline (run_steps (renders example_env) (Mounted initial_state)
      (take 16 (request_steps example_env (lit ''q'') (Resolved events_response))))) =
     Some [lit ''start'', lit ''processing'', lit ''complete'', lit ''event-0''] \<and>
   map_option (map id') (page_timeline (run_steps (renders example_env) (Mounted initial_state)
      (take 8 (request_steps example_env (lit ''q'') (Resolved events_response))))) =
     Some [lit ''start'', lit ''processing'']"
    by (simp add: page_defs render_defs event_defs events_response_def initial_state_def
        example_env_def lit_def showNat.simps digit_def run_steps_def page_timeline_def)
  then obtain tl' where tl': "page_timeline (run_steps (renders example_env) (Mounted initial_state)
      (take 16 (request_steps example_env (lit ''q'') (Resolved events_response)))) = Some tl'"
    by blast
  from timeline_append_only [OF a b tl'] tl' a b ev show ?thesis by blast
qed

section \<open>A failed request shows an error and no answer\<close>

lemma run_append: "run s (xs @ ys) = run (run s xs) ys"
  by (simp add: run_def)

lemma failing_try_block:
  "request_fails outcome \<Longrightarrow> \<exists>err. try_block e outcome = ([], [], Some err)"
  by (auto simp: request_fails_def try_block_def split: fetch_outcome.splits)

text \<open>
  C10. If the request fails (the \<open>fetch\<close> rejects, or the response status is not ok),
  the page sets an error message, appends exactly one error event to the timeline
  (after the start event), sets no timer, and the answer and the citation list stay
  empty from the moment they were cleared (the fifth effect) to the end.
\<close>

theorem failed_request_shows_error_only:
  assumes "request_fails outcome" and "5 \<le> k"
  shows "\<exists>msg.
           error (run s (all_effects e q outcome)) = Some msg \<and>
           timeline (run s (all_effects e q outcome)) = [start_event e q, error_event e msg] \<and>
           filter appends_error (all_effects e q outcome) = [AppendTimeline (error_event e msg)] \<and>
           snd (handleResearch e q outcome) = [] \<and>
           answer (run s (take k (all_effects e q outcome))) = JStr [] \<and>
           citations (run s (take k (all_effects e q outcome))) = JArr [] \<and>
           isLoading (run s (all_effects e q outcome)) = False"
proof -
  obtain err where t: "try_block e outcome = ([], [], Some err)"
    using failing_try_block [OF assms(1)] by blast
  define msg where
    "msg = (case err of ErrorObject m \<Rightarrow> m | OtherValue \<Rightarrow> lit ''Failed to connect to backend'')"
  have all: "all_effects e q outcome =
      [SetIsLoading True, SetError None, SetTimeline [], SetAnswer (JStr []),
       SetCitations (JArr [])] @
      [SetTimeline [start_event e q], SetError (Some msg), AppendTimeline (error_event e msg),
       ToastError (lit ''Research failed'') msg, SetIsLoading False]"
    using t by (simp add: all_effects_def request_steps_def handleResearch_def begin_effects_def
        catch_block_def msg_def Let_def initial_state_def render_defs start_event_def
        error_event_def)
  have final: "error (run s (all_effects e q outcome)) = Some msg \<and>
      timeline (run s (all_effects e q outcome)) = [start_event e q, error_event e msg] \<and>
      isLoading (run s (all_effects e q outcome)) = False"
    unfolding all by (simp add: run_def)
  have one: "filter appends_error (all_effects e q outcome) = [AppendTimeline (error_event e msg)]"
    unfolding all by (simp add: appends_error_def error_event_def start_event_def)
  have timers: "snd (handleResearch e q outcome) = []"
    using t by (simp add: handleResearch_def)
  from assms(2) have "k = Suc (Suc (Suc (Suc (Suc (k - 5)))))" by arith
  then obtain d where d: "k = Suc (Suc (Suc (Suc (Suc d))))" by blast
  have cleared: "answer (run s (take k (all_effects e q outcome))) = JStr [] \<and>
      citations (run s (take k (all_effects e q outcome))) = JArr []"
  proof -
    have tk: "take k (all_effects e q outcome) =
        [SetIsLoading True, SetError None, SetTimeline [], SetAnswer (JStr []), SetCitations (JArr [])] @
        take d [SetTimeline [start_event e q], SetError (Some msg), AppendTimeline (error_event e msg),
                ToastError (lit ''Research failed'') msg, SetIsLoading False]"
      unfolding all d by simp
    have keep: "\<And>s' xs. \<forall>x \<in> set xs. (case x of SetAnswer a \<Rightarrow> False | SetCitations c \<Rightarrow> False | _ \<Rightarrow> True)
        \<Longrightarrow> answer (run s' xs) = answer s' \<and> citations (run s' xs) = citations s'"
    proof -
      fix s' :: ui_state and xs :: "effect list"
      assume "\<forall>x \<in> set xs. (case x of SetAnswer a \<Rightarrow> False | SetCitations c \<Rightarrow> False | _ \<Rightarrow> True)"
      then show "answer (run s' xs) = answer s' \<and> citations (run s' xs) = citations s'"
      proof (induction xs arbitrary: s')
        case Nil
        then show ?case by (simp add: run_def)
      next
        case (Cons x xs)
        then have "answer (apply_effect s' x) = answer s' \<and> citations (apply_effect s' x) = citations s'"
          by (cases x) simp_all
        moreover have "run s' (x # xs) = run (apply_effect s' x) xs" by (simp add: run_def)
        ultimately show ?case using Cons by simp
      qed
    qed
    have "\<forall>x \<in> set (take d [SetTimeline [start_event e q], SetError (Some msg), AppendTimeline (error_event e msg),
                ToastError (lit ''Research failed'') msg, SetIsLoading False]).
            (case x of SetAnswer a \<Rightarrow> False | SetCitations c \<Rightarrow> False | _ \<Rightarrow> True)"
      by (auto dest!: in_set_takeD)
    from keep [OF this] show ?thesis
      unfolding tk run_append by (simp add: run_def)
  qed
  from final one timers cleared show ?thesis by blast
qed

theorem failed_request_shows_error_only_witness:
  "request_fails (Resolved failing_response) \<and> (5::nat) \<le> 7 \<and>
   error (run initial_state (all_effects example_env (lit ''q'') (Resolved failing_response)))
     = Some (lit ''Backend error: 500 Internal Server Error'') \<and>
   map id' (timeline (run initial_state (all_effects example_env (lit ''q'') (Resolved failing_response))))
     = [lit ''start'', lit ''error''] \<and>
   answer (run initial_state (take 7 (all_effects example_env (lit ''q'') (Resolved failing_response)))) = JStr [] \<and>
   citations (run initial_state (take 7 (all_effects example_env (lit ''q'') (Resolved failing_response)))) = JArr []"
proof -
  have f: "request_fails (Resolved failing_response)"
    by (simp add: request_fails_def failing_response_def ok_def)
  have k: "(5::nat) \<le> 7" by simp
  have ev: "error (run initial_state (all_effects example_env (lit ''q'') (Resolved failing_response)))
     = Some (lit ''Backend error: 500 Internal Server Error'') \<and>
   map id' (timeline (run initial_state (all_effects example_env (lit ''q'') (Resolved failing_response))))
     = [lit ''start'', lit ''error'']"
    by (simp add: page_defs render_defs event_defs failing_response_def initial_state_def
        lit_def showNat.simps digit_def)
  from failed_request_shows_error_only [OF f k, of initial_state example_env "lit ''q''"] f k ev
  show ?thesis by blast
qed

section \<open>The health status\<close>

text \<open>
  C9. Before the first poll has settled the hook reports \<open>checking\<close>. Every poll
  settles, and after it the hook reports \<open>online\<close> if and only if the GET request
  resolved within the 5000 ms timeout with a status from 200 to 299; after any other
  status, a network failure or the timeout it reports \<open>offline\<close>.
\<close>

theorem health_status_online_iff:
  "useHealthCheck [] = Checking \<and>
   (\<exists>outcome. settle (health_fetch v) timeoutError net = Some outcome \<and>
      useHealthCheck (settled @ [outcome]) =
        (if resolved_2xx_within 5000 net then Online else Offline))"
  by (cases net) (auto simp: useHealthCheck_def settle_def health_fetch_def checkHealth_def
      resolved_2xx_within_def ok_def)

section \<open>The iteration bound of the reflection loop\<close>




text \<open>
  Scenario A (confidence 0.9 in iteration 0) uses one iteration, scenario B (no
  confidence in any iteration) uses all of them; a budget of 0, a blocked input and an
  interruption in the second round use 0, 0 and 2 iterations.
\<close>

lemma iterations_scenarios:
  "iterationsUsed False (\<lambda>i. Verdict (9 / 10)) 3 = 1 \<and>
   iterationsUsed False (\<lambda>i. Verdict 0) 3 = 3 \<and>
   iterationsUsed False (\<lambda>i. Verdict 0) 0 = 0 \<and>
   iterationsUsed True (\<lambda>i. Verdict 0) 3 = 0 \<and>
   iterationsUsed False (\<lambda>i. if i = 0 then Verdict (1 / 2) else Interrupted) 3 = 2"
  by (simp add: iterationsUsed_def search_rounds_def sufficient_def confidence_threshold_def
      reflection_loop.simps [of _ _ 0] reflection_loop.simps [of _ _ "Suc 0"]
      reflection_loop.simps [of _ _ "Suc (Suc 0)"])

section \<open>Retries on a rate limit\<close>

lemma search_retry_calls:
  "made \<le> calls (search_retry p made ws left) \<and> calls (search_retry p made ws left) \<le> made + left"
proof (induction left arbitrary: made ws)
  case 0
  show ?case by simp
next
  case (Suc left)
  have ih: "Suc made \<le> calls (search_retry p (Suc made) ws' left) \<and>
      calls (search_retry p (Suc made) ws' left) \<le> Suc made + left" for ws'
    using Suc by blast
  show ?case
  proof (cases "p made")
    case (Results rs)
    then show ?thesis by simp
  next
    case RateLimited
    then show ?thesis using ih [of "if left = 0 then ws else ws @ [2 ^ Suc made]"]
      by (simp del: power_Suc)
  next
    case (ProviderError kind)
    then show ?thesis using ih [of "if left = 0 then ws else ws @ [2 ^ Suc made]"]
      by (cases kind) (simp_all del: power_Suc)
  qed
qed

lemma search_retry_calls_Suc:
  "Suc made \<le> calls (search_retry p made ws (Suc left))"
proof (cases "p made")
  case (Results rs)
  then show ?thesis by simp
next
  case RateLimited
  then show ?thesis
    using search_retry_calls [of "Suc made" p "if left = 0 then ws else ws @ [2 ^ Suc made]" left]
    by (simp del: power_Suc)
next
  case (ProviderError kind)
  then show ?thesis
    using search_retry_calls [of "Suc made" p "if left = 0 then ws else ws @ [2 ^ Suc made]" left]
    by (cases kind) (simp_all del: power_Suc)
qed

lemma search_retry_transient:
  "result (search_retry p made ws left) = Inl Transient \<Longrightarrow>
     calls (search_retry p made ws left) = made + left \<and>
     (\<forall>k. made \<le> k \<and> k < made + left \<longrightarrow> retryable (p k))"
proof (induction left arbitrary: made ws)
  case 0
  show ?case by auto
next
  case (Suc left)
  let ?ws = "if left = 0 then ws else ws @ [2 ^ Suc made]"
  have r: "retryable (p made)" and eq: "search_retry p made ws (Suc left) = search_retry p (Suc made) ?ws left"
    using Suc.prems
    by (auto simp: retryable_def simp del: power_Suc split: provider_reply.splits error_kind.splits)
  from Suc.prems eq have "result (search_retry p (Suc made) ?ws left) = Inl Transient" by simp
  from Suc.IH [OF this] have c: "calls (search_retry p (Suc made) ?ws left) = Suc made + left"
    and a: "\<forall>k. Suc made \<le> k \<and> k < Suc made + left \<longrightarrow> retryable (p k)" by blast+
  have "\<forall>k. made \<le> k \<and> k < made + Suc left \<longrightarrow> retryable (p k)"
  proof (intro allI impI)
    fix k assume k: "made \<le> k \<and> k < made + Suc left"
    show "retryable (p k)"
    proof (cases "k = made")
      case True
      with r show ?thesis by simp
    next
      case False
      with k have "Suc made \<le> k \<and> k < Suc made + left" by arith
      with a show ?thesis by blast
    qed
  qed
  with c eq show ?case by simp
qed

text \<open>
  C6. A search makes at least one and at most 3 provider calls. A transient error
  surfaces only when the budget is exhausted: then exactly 3 calls were made and each
  got a rate-limit (or transient) reply. For a provider that is rate limited twice and
  then succeeds, exactly 3 calls are made, the last result is returned, and the
  backoffs before the retries were 2 and 4.
\<close>

theorem search_retries_rate_limits:
  "1 \<le> calls (search provider) \<and> calls (search provider) \<le> 3 \<and>
   (result (search provider) = Inl Transient \<longrightarrow>
      calls (search provider) = 3 \<and> retryable (provider 0) \<and> retryable (provider 1) \<and>
      retryable (provider 2)) \<and>
   (provider 0 = RateLimited \<and> provider 1 = RateLimited \<and> provider 2 = Results rs \<longrightarrow>
      calls (search provider) = 3 \<and> result (search provider) = Inr rs \<and>
      waits (search provider) = [2, 4])"
proof -
  have c: "1 \<le> calls (search provider) \<and> calls (search provider) \<le> 3"
  proof -
    have "calls (search provider) \<le> 3"
      using search_retry_calls [of 0 provider "[]" max_attempts]
      by (simp add: search_def max_attempts_def)
    moreover have "1 \<le> calls (search provider)"
      using search_retry_calls_Suc [of 0 provider "[]" 2]
      by (simp add: search_def max_attempts_def numeral_3_eq_3)
    ultimately show ?thesis by simp
  qed
  have t: "result (search provider) = Inl Transient \<longrightarrow>
      calls (search provider) = 3 \<and> retryable (provider 0) \<and> retryable (provider 1) \<and>
      retryable (provider 2)"
    using search_retry_transient [of provider 0 "[]" max_attempts]
    by (simp add: search_def max_attempts_def)
  have d: "provider 0 = RateLimited \<and> provider 1 = RateLimited \<and> provider 2 = Results rs \<longrightarrow>
      calls (search provider) = 3 \<and> result (search provider) = Inr rs \<and>
      waits (search provider) = [2, 4]"
    by (simp add: search_def max_attempts_def numeral_3_eq_3 numeral_2_eq_2)
  from c t d show ?thesis by blast
qed

theorem search_retries_rate_limits_witness:
  "scenario_D 0 = RateLimited \<and> scenario_D 1 = RateLimited \<and> scenario_D 2 = Results [] \<and>
   calls (search scenario_D) = 3 \<and> result (search scenario_D) = Inr [] \<and>
   result (search always_limited) = Inl Transient \<and> calls (search always_limited) = 3"
proof -
  have h: "scenario_D 0 = RateLimited \<and> scenario_D 1 = RateLimited \<and> scenario_D 2 = Results []"
    by (simp add: scenario_D_def)
  have a: "result (search always_limited) = Inl Transient"
    by (simp add: search_def max_attempts_def numeral_3_eq_3 always_limited_def)
  from search_retries_rate_limits [of scenario_D "[]"] search_retries_rate_limits [of always_limited "[]"] h a
  show ?thesis by blast 
qed

end
